theory Spec2Isabelle
  imports Main "HOL-Library.AList"
begin

section \<open>Values exchanged with the ArkID service\<close>

text \<open>
  Python strings are modelled by their UTF-8 encoding, as \<open>string\<close>: concatenation
  and equality of strings, the only operations \<open>client.py\<close> uses, commute with the
  encoding. A \<open>dict\<close> with string keys is an association list in insertion order.
\<close>

datatype json =
    JNull
  | JBool bool
  | JInt int
  | JStr string
  | JList "json list"
  | JDict "(string \<times> json) list"

type_synonym pydict = "(string \<times> json) list"

datatype verb = GET | POST | PATCH | PUT | DELETE

text \<open>
  \<open>client.py\<close> imports three names of the package: \<open>BasicAuthorizer\<close>,
  \<open>OrgAPIError\<close> and \<open>ArkIDHTTPResponse\<close>. Any other class of the same family is
  represented by its name.
\<close>

datatype authorizer_type = BasicAuthorizer | OtherAuthorizer string

datatype authorizer = Authorizer (type_of: authorizer_type) (credentials: string)

datatype error_class = OrgAPIError | OtherAPIError string

datatype response_class = ArkIDHTTPResponse | OtherResponse string

record http_response =
  status :: nat
  message :: string
  data :: json

datatype server_reply = Success http_response | Failure http_response

datatype exn =
    APIError error_class nat string
  | AuthorizerRejected authorizer_type

datatype response = Response response_class http_response

section \<open>The client object and the world it acts on\<close>

record client =
  base_url :: string
  service :: string
  authorizer :: "authorizer option"
  error_class :: error_class
  default_response_class :: response_class
  options :: pydict

record wire_request =
  req_verb :: verb
  req_base_url :: string
  req_path :: string
  req_params :: "pydict option"
  req_json_body :: "pydict option"
  req_authorizer :: "authorizer option"

datatype event = LogInfo string | HttpRequest wire_request

text \<open>
  A method runs on the object \<open>self\<close> and on the trace of everything the process has
  logged and sent so far, oldest first. The server answers a request knowing every
  request it has received, the current one last.
\<close>

record state =
  self :: client
  trace :: "event list"

type_synonym server = "wire_request list \<Rightarrow> server_reply"

type_synonym 'a action = "state \<Rightarrow> 'a \<times> state"

fun requests_of :: "event list \<Rightarrow> wire_request list" where
  "requests_of [] = []"
| "requests_of (LogInfo m # es) = requests_of es"
| "requests_of (HttpRequest r # es) = r # requests_of es"

fun log_lines_of :: "event list \<Rightarrow> string list" where
  "log_lines_of [] = []"
| "log_lines_of (LogInfo m # es) = m # log_lines_of es"
| "log_lines_of (HttpRequest r # es) = log_lines_of es"

definition emitted :: "'a action \<Rightarrow> state \<Rightarrow> event list" where
  "emitted m s = drop (length (trace s)) (trace (snd (m s)))"

definition logger_info :: "string \<Rightarrow> state \<Rightarrow> state" where
  "logger_info msg s = s\<lparr>trace := trace s @ [LogInfo msg]\<rparr>"

section \<open>BaseClient\<close>

text \<open>
  Modelled from the spec: \<open>arkid_client.base.BaseClient\<close> is not part of the
  sources at hand. The spec's interface table and the docstrings of \<open>client.py\<close>
  put every endpoint of a resource client under \<open>/siteapi/v1/<service>/\<close>.
\<close>

definition base_path :: "client \<Rightarrow> string" where
  "base_path c = ''/siteapi/v1/'' @ service c @ ''/''"

text \<open>
  Modelled from the spec: \<open>BaseClient.__init__\<close> is missing. The spec has an
  authorizer validated against the allow-list of the client class and a mismatch
  rejected at construction time, before any network call. The class attributes of the
  subclass are arguments here. The default \<open>authorizer=None\<close> supplies no authorizer,
  so there is none to reject.
\<close>

definition BaseClient_init ::
  "authorizer_type list \<Rightarrow> error_class \<Rightarrow> response_class \<Rightarrow>
   string \<Rightarrow> string \<Rightarrow> authorizer option \<Rightarrow> pydict \<Rightarrow>
   event list \<Rightarrow> (exn + client) \<times> event list" where
  "BaseClient_init allowed ecls rcls url svc auth kwargs tr =
     (let c = \<lparr>base_url = url, service = svc, authorizer = auth, error_class = ecls,
               default_response_class = rcls, options = kwargs\<rparr>
      in case auth of
           None \<Rightarrow> (Inr c, tr)
         | Some a \<Rightarrow>
             if type_of a \<in> set allowed then (Inr c, tr)
             else (Inl (AuthorizerRejected (type_of a)), tr))"

text \<open>
  Modelled from the spec: the verb methods \<open>get/post/patch/put/delete(path, params?,
  json_body?)\<close> of the base transport are missing. By the spec each call sends one
  request to the base path followed by the relative path, wraps a successful reply in
  the response class, and turns an error reply into the client's error class carrying
  the status and message of the reply, without retry or recovery.
\<close>

definition request ::
  "server \<Rightarrow> verb \<Rightarrow> string \<Rightarrow> pydict option \<Rightarrow> pydict option \<Rightarrow>
   (exn + response) action" where
  "request srv v path params json_body s =
     (let c = self s;
          rq = \<lparr>req_verb = v, req_base_url = base_url c, req_path = base_path c @ path,
                req_params = params, req_json_body = json_body,
                req_authorizer = authorizer c\<rparr>;
          s' = s\<lparr>trace := trace s @ [HttpRequest rq]\<rparr>
      in case srv (requests_of (trace s')) of
           Success r \<Rightarrow> (Inr (Response (default_response_class c) r), s')
         | Failure r \<Rightarrow> (Inl (APIError (error_class c) (status r) (message r)), s'))"

definition get ::
  "server \<Rightarrow> string \<Rightarrow> pydict option \<Rightarrow> pydict option \<Rightarrow> (exn + response) action" where
  "get srv path params json_body = request srv GET path params json_body"

definition post ::
  "server \<Rightarrow> string \<Rightarrow> pydict option \<Rightarrow> pydict option \<Rightarrow> (exn + response) action" where
  "post srv path params json_body = request srv POST path params json_body"

definition patch ::
  "server \<Rightarrow> string \<Rightarrow> pydict option \<Rightarrow> pydict option \<Rightarrow> (exn + response) action" where
  "patch srv path params json_body = request srv PATCH path params json_body"

definition put ::
  "server \<Rightarrow> string \<Rightarrow> pydict option \<Rightarrow> pydict option \<Rightarrow> (exn + response) action" where
  "put srv path params json_body = request srv PUT path params json_body"

definition delete ::
  "server \<Rightarrow> string \<Rightarrow> pydict option \<Rightarrow> pydict option \<Rightarrow> (exn + response) action" where
  "delete srv path params json_body = request srv DELETE path params json_body"

section \<open>OrgClient\<close>

text \<open>
  The class attributes and the constructor of \<open>OrgClient\<close> (\<open>client.py\<close>, lines
  32 to 37).
\<close>

definition allowed_authorizer_types :: "authorizer_type list" where
  "allowed_authorizer_types = [BasicAuthorizer]"

definition OrgClient_init ::
  "string \<Rightarrow> authorizer option \<Rightarrow> pydict \<Rightarrow> event list \<Rightarrow> (exn + client) \<times> event list" where
  "OrgClient_init url auth kwargs tr =
     BaseClient_init allowed_authorizer_types OrgAPIError ArkIDHTTPResponse
       url ''org'' auth kwargs tr"

text \<open>
  Every method logs one line of the same shape: a fixed Chinese phrase, the qualified
  name of a method followed by \<open>()\<close>, and a second fixed phrase. \<open>info_msg\<close> builds the
  line from the method name written in the literal; the two phrases are given by their
  UTF-8 bytes.
\<close>

definition info_head :: string where
  "info_head =
     [CHR 0xE6, CHR 0xAD, CHR 0xA3, CHR 0xE5, CHR 0x9C, CHR 0xA8, CHR 0xE8, CHR 0xB0,
      CHR 0x83, CHR 0xE7, CHR 0x94, CHR 0xA8, CHR 0x20]"

definition info_tail :: string where
  "info_tail =
     [CHR 0x20, CHR 0xE6, CHR 0x8E, CHR 0xA5, CHR 0xE5, CHR 0x8F, CHR 0xA3, CHR 0xE4,
      CHR 0xB8, CHR 0x8E, CHR 0x20, CHR 0x41, CHR 0x72, CHR 0x6B, CHR 0x49, CHR 0x44,
      CHR 0x20, CHR 0xE6, CHR 0x9C, CHR 0x8D, CHR 0xE5, CHR 0x8A, CHR 0xA1, CHR 0xE7,
      CHR 0xAB, CHR 0xAF, CHR 0xE8, CHR 0xBF, CHR 0x9B, CHR 0xE8, CHR 0xA1, CHR 0x8C,
      CHR 0xE4, CHR 0xBA, CHR 0xA4, CHR 0xE4, CHR 0xBA, CHR 0x92]"

definition info_msg :: "string \<Rightarrow> string" where
  "info_msg name = info_head @ ''OrgClient.'' @ name @ ''()'' @ info_tail"

definition query_own_org :: "server \<Rightarrow> pydict \<Rightarrow> (exn + response) action" where
  "query_own_org srv params s =
     get srv '''' (Some params) None (logger_info (info_msg ''query_own_org'') s)"

definition query_org :: "server \<Rightarrow> string \<Rightarrow> (exn + response) action" where
  "query_org srv oid s =
     get srv (oid @ ''/'') None None (logger_info (info_msg ''query_org'') s)"

definition create_org :: "server \<Rightarrow> pydict \<Rightarrow> (exn + response) action" where
  "create_org srv json_body s =
     post srv '''' None (Some json_body) (logger_info (info_msg ''create_org'') s)"

definition delete_org :: "server \<Rightarrow> string \<Rightarrow> (exn + response) action" where
  "delete_org srv oid s =
     delete srv (oid @ ''/'') None None (logger_info (info_msg ''delete_org'') s)"

definition update_org :: "server \<Rightarrow> string \<Rightarrow> pydict \<Rightarrow> (exn + response) action" where
  "update_org srv oid json_body s =
     patch srv (oid @ ''/'') None (Some json_body)
       (logger_info (info_msg ''update_org'') s)"

definition query_orguser_list :: "server \<Rightarrow> string \<Rightarrow> pydict \<Rightarrow> (exn + response) action" where
  "query_orguser_list srv oid params s =
     get srv (oid @ ''/user/'') (Some params) None
       (logger_info (info_msg ''query_orguser_list'') s)"

definition add_orguser :: "server \<Rightarrow> string \<Rightarrow> json list \<Rightarrow> (exn + response) action" where
  "add_orguser srv oid usernames s =
     (let s1 = logger_info (info_msg ''add_orguser'') s;
          json_body = [(''subject'', JStr ''add''), (''usernames'', JList usernames)]
      in patch srv (oid @ ''/user/'') None (Some json_body) s1)"

definition delete_orguser :: "server \<Rightarrow> string \<Rightarrow> json list \<Rightarrow> (exn + response) action" where
  "delete_orguser srv oid usernames s =
     (let s1 = logger_info (info_msg ''delete_orguser'') s;
          json_body = [(''subject'', JStr ''delete''), (''usernames'', JList usernames)]
      in patch srv (oid @ ''/user/'') None (Some json_body) s1)"

definition query_orguser :: "server \<Rightarrow> string \<Rightarrow> string \<Rightarrow> (exn + response) action" where
  "query_orguser srv oid username s =
     get srv (oid @ ''/user/'' @ username @ ''/'') None None
       (logger_info (info_msg ''query_orguser'') s)"

definition update_orguser ::
  "server \<Rightarrow> string \<Rightarrow> string \<Rightarrow> pydict \<Rightarrow> (exn + response) action" where
  "update_orguser srv oid username json_body s =
     patch srv (oid @ ''/user/'' @ username @ ''/'') None (Some json_body)
       (logger_info (info_msg ''update_orguser'') s)"

definition get_org_invitation_key :: "server \<Rightarrow> string \<Rightarrow> (exn + response) action" where
  "get_org_invitation_key srv oid s =
     get srv (oid @ ''/invitation/'') None None
       (logger_info (info_msg ''get_org_invitation_key'') s)"

definition refresh_org_invitation_key :: "server \<Rightarrow> string \<Rightarrow> (exn + response) action" where
  "refresh_org_invitation_key srv oid s =
     put srv (oid @ ''/invitation/'') None None
       (logger_info (info_msg ''get_org_invitation_key'') s)"

definition view_org_by_invitation_key ::
  "server \<Rightarrow> string \<Rightarrow> string \<Rightarrow> (exn + response) action" where
  "view_org_by_invitation_key srv oid invite_link_key s =
     get srv (oid @ ''/invitation/'' @ invite_link_key @ ''/'') None None
       (logger_info (info_msg ''view_org_by_invitation_key'') s)"

definition join_org_by_invitation_key ::
  "server \<Rightarrow> string \<Rightarrow> string \<Rightarrow> (exn + response) action" where
  "join_org_by_invitation_key srv oid invite_link_key s =
     post srv (oid @ ''/invitation/'' @ invite_link_key @ ''/'') None None
       (logger_info (info_msg ''join_org_by_invitation_key'') s)"

section \<open>Calls made by a user of the client\<close>

text \<open>
  One constructor for each method of \<open>OrgClient\<close> with its arguments, the name the
  method is defined under, and the caller that invokes it. A program using the client
  is a list of calls; an exception of one call is a result of that call and the
  program goes on.
\<close>

datatype call =
    Query_own_org pydict
  | Query_org string
  | Create_org pydict
  | Delete_org string
  | Update_org string pydict
  | Query_orguser_list string pydict
  | Add_orguser string "json list"
  | Delete_orguser string "json list"
  | Query_orguser string string
  | Update_orguser string string pydict
  | Get_org_invitation_key string
  | Refresh_org_invitation_key string
  | View_org_by_invitation_key string string
  | Join_org_by_invitation_key string string

fun method_name :: "call \<Rightarrow> string" where
  "method_name (Query_own_org params) = ''query_own_org''"
| "method_name (Query_org oid) = ''query_org''"
| "method_name (Create_org json_body) = ''create_org''"
| "method_name (Delete_org oid) = ''delete_org''"
| "method_name (Update_org oid json_body) = ''update_org''"
| "method_name (Query_orguser_list oid params) = ''query_orguser_list''"
| "method_name (Add_orguser oid usernames) = ''add_orguser''"
| "method_name (Delete_orguser oid usernames) = ''delete_orguser''"
| "method_name (Query_orguser oid username) = ''query_orguser''"
| "method_name (Update_orguser oid username json_body) = ''update_orguser''"
| "method_name (Get_org_invitation_key oid) = ''get_org_invitation_key''"
| "method_name (Refresh_org_invitation_key oid) = ''refresh_org_invitation_key''"
| "method_name (View_org_by_invitation_key oid k) = ''view_org_by_invitation_key''"
| "method_name (Join_org_by_invitation_key oid k) = ''join_org_by_invitation_key''"

fun invoke :: "server \<Rightarrow> call \<Rightarrow> (exn + response) action" where
  "invoke srv (Query_own_org params) = query_own_org srv params"
| "invoke srv (Query_org oid) = query_org srv oid"
| "invoke srv (Create_org json_body) = create_org srv json_body"
| "invoke srv (Delete_org oid) = delete_org srv oid"
| "invoke srv (Update_org oid json_body) = update_org srv oid json_body"
| "invoke srv (Query_orguser_list oid params) = query_orguser_list srv oid params"
| "invoke srv (Add_orguser oid usernames) = add_orguser srv oid usernames"
| "invoke srv (Delete_orguser oid usernames) = delete_orguser srv oid usernames"
| "invoke srv (Query_orguser oid username) = query_orguser srv oid username"
| "invoke srv (Update_orguser oid username json_body) =
     update_orguser srv oid username json_body"
| "invoke srv (Get_org_invitation_key oid) = get_org_invitation_key srv oid"
| "invoke srv (Refresh_org_invitation_key oid) = refresh_org_invitation_key srv oid"
| "invoke srv (View_org_by_invitation_key oid k) = view_org_by_invitation_key srv oid k"
| "invoke srv (Join_org_by_invitation_key oid k) = join_org_by_invitation_key srv oid k"

fun run_calls :: "server \<Rightarrow> call list \<Rightarrow> (exn + response) list action" where
  "run_calls srv [] s = ([], s)"
| "run_calls srv (c # cs) s =
     (let (r, s1) = invoke srv c s;
          (rs, s2) = run_calls srv cs s1
      in (r # rs, s2))"

text \<open>Sample data for evaluating the model on concrete inputs.\<close>

definition basic_auth :: authorizer where
  "basic_auth = Authorizer BasicAuthorizer ''dXNlcjpwdw==''"

definition org_client :: client where
  "org_client =
     \<lparr>base_url = ''https://arkid.example.org'', service = ''org'',
      authorizer = Some basic_auth, error_class = OrgAPIError,
      default_response_class = ArkIDHTTPResponse, options = []\<rparr>"

definition fresh :: state where
  "fresh = \<lparr>self = org_client, trace = []\<rparr>"

definition ok_server :: server where
  "ok_server rqs = Success \<lparr>status = 200, message = ''OK'', data = JDict []\<rparr>"

definition forbidding_server :: server where
  "forbidding_server rqs = Failure \<lparr>status = 403, message = ''Forbidden'', data = JNull\<rparr>"

section \<open>Basic facts\<close>

lemma requests_of_append: "requests_of (es @ fs) = requests_of es @ requests_of fs"
  by (induction es rule: requests_of.induct) simp_all

lemma log_lines_of_append: "log_lines_of (es @ fs) = log_lines_of es @ log_lines_of fs"
  by (induction es rule: log_lines_of.induct) simp_all

lemma request_trace:
  "trace (snd (request srv v path params json_body s)) =
     trace s @ [HttpRequest \<lparr>req_verb = v, req_base_url = base_url (self s),
                  req_path = base_path (self s) @ path, req_params = params,
                  req_json_body = json_body, req_authorizer = authorizer (self s)\<rparr>]"
  by (simp add: request_def Let_def split: server_reply.split)

lemma request_self: "self (snd (request srv v path params json_body s)) = self s"
  by (simp add: request_def Let_def split: server_reply.split)

lemma logger_info_trace: "trace (logger_info msg s) = trace s @ [LogInfo msg]"
  by (simp add: logger_info_def)

lemma logger_info_self: "self (logger_info msg s) = self s"
  by (simp add: logger_info_def)

lemmas verb_defs = get_def post_def patch_def put_def delete_def

lemmas method_defs =
  query_own_org_def query_org_def create_org_def delete_org_def update_org_def
  query_orguser_list_def add_orguser_def delete_orguser_def query_orguser_def
  update_orguser_def get_org_invitation_key_def refresh_org_invitation_key_def
  view_org_by_invitation_key_def join_org_by_invitation_key_def

lemmas step_simps =
  request_trace request_self logger_info_trace logger_info_self

lemma OrgClient_init_accepted:
  assumes "OrgClient_init url auth kwargs tr = (Inr c, tr')"
  shows "base_path c = ''/siteapi/v1/org/''" and "base_url c = url"
    and "authorizer c = auth" and "error_class c = OrgAPIError"
    and "default_response_class c = ArkIDHTTPResponse" and "tr' = tr"
  using assms
  by (auto simp: OrgClient_init_def BaseClient_init_def base_path_def Let_def
      split: option.splits if_splits)

section \<open>Requests issued by single methods\<close>

text \<open>
  C1. For every oid, \<open>query_org(oid)\<close> on a constructed \<open>OrgClient\<close> issues exactly one
  request: a GET whose path is the org base path \<open>/siteapi/v1/org/\<close> followed by the
  oid and a slash, with no query parameters and no body.
\<close>

theorem query_org_request:
  assumes "OrgClient_init url auth kwargs tr = (Inr (self s), tr')"
  shows "requests_of (emitted (query_org srv oid) s) =
           [\<lparr>req_verb = GET, req_base_url = url,
             req_path = ''/siteapi/v1/org/'' @ oid @ ''/'',
             req_params = None, req_json_body = None, req_authorizer = auth\<rparr>]
         \<and> base_path (self s) = ''/siteapi/v1/org/''"
  using OrgClient_init_accepted [OF assms]
  by (simp add: emitted_def query_org_def get_def step_simps)

lemma fresh_constructed:
  "OrgClient_init ''https://arkid.example.org'' (Some basic_auth) [] [] = (Inr (self fresh), [])"
  by (simp add: OrgClient_init_def BaseClient_init_def allowed_authorizer_types_def
      fresh_def org_client_def basic_auth_def)

theorem query_org_request_witness:
  "OrgClient_init ''https://arkid.example.org'' (Some basic_auth) [] [] = (Inr (self fresh), [])
   \<and> requests_of (emitted (query_org ok_server ''o1'') fresh) =
       [\<lparr>req_verb = GET, req_base_url = ''https://arkid.example.org'',
         req_path = ''/siteapi/v1/org/o1/'', req_params = None, req_json_body = None,
         req_authorizer = Some basic_auth\<rparr>]"
  using fresh_constructed query_org_request [OF fresh_constructed, of ok_server "''o1''"]
  by simp

text \<open>
  C2. For every oid and every list of usernames, \<open>add_orguser(oid, usernames)\<close> issues
  exactly one request: a PATCH to \<open>{oid}/user/\<close> under the org base path whose JSON
  body is the dict with the two keys \<open>subject\<close>, bound to \<open>add\<close>, and \<open>usernames\<close>,
  bound to the list as it was passed.
\<close>

theorem add_orguser_request:
  assumes "OrgClient_init url auth kwargs tr = (Inr (self s), tr')"
  shows "requests_of (emitted (add_orguser srv oid usernames) s) =
           [\<lparr>req_verb = PATCH, req_base_url = url,
             req_path = ''/siteapi/v1/org/'' @ oid @ ''/user/'',
             req_params = None,
             req_json_body = Some [(''subject'', JStr ''add''), (''usernames'', JList usernames)],
             req_authorizer = auth\<rparr>]"
  using OrgClient_init_accepted [OF assms]
  by (simp add: emitted_def add_orguser_def patch_def step_simps Let_def)

theorem add_orguser_request_witness:
  "OrgClient_init ''https://arkid.example.org'' (Some basic_auth) [] [] = (Inr (self fresh), [])
   \<and> requests_of (emitted (add_orguser ok_server ''o1'' [JStr ''a'', JStr ''b'']) fresh) =
       [\<lparr>req_verb = PATCH, req_base_url = ''https://arkid.example.org'',
         req_path = ''/siteapi/v1/org/o1/user/'', req_params = None,
         req_json_body =
           Some [(''subject'', JStr ''add''), (''usernames'', JList [JStr ''a'', JStr ''b''])],
         req_authorizer = Some basic_auth\<rparr>]"
  using fresh_constructed
    add_orguser_request [OF fresh_constructed, of ok_server "''o1''" "[JStr ''a'', JStr ''b'']"]
  by simp

text \<open>
  C3. For every oid and every list of usernames, the request of
  \<open>delete_orguser(oid, usernames)\<close> is the request of \<open>add_orguser(oid, usernames)\<close>
  with the value of the key \<open>subject\<close> replaced by \<open>delete\<close>: the verb is PATCH and the
  path is the same in both, the keys of the body and the value of \<open>usernames\<close> are the
  same, and \<open>subject\<close> is \<open>add\<close> in the one and \<open>delete\<close> in the other.
\<close>

theorem delete_orguser_vs_add_orguser:
  "requests_of (emitted (delete_orguser srv oid usernames) s) =
     map (\<lambda>r. r\<lparr>req_json_body :=
                 map_option (AList.update ''subject'' (JStr ''delete'')) (req_json_body r)\<rparr>)
       (requests_of (emitted (add_orguser srv oid usernames) s))
   \<and> map req_path (requests_of (emitted (delete_orguser srv oid usernames) s)) =
     map req_path (requests_of (emitted (add_orguser srv oid usernames) s))
   \<and> map req_path (requests_of (emitted (add_orguser srv oid usernames) s)) =
     [base_path (self s) @ oid @ ''/user/'']
   \<and> map req_verb (requests_of (emitted (delete_orguser srv oid usernames) s)) = [PATCH]
   \<and> map req_verb (requests_of (emitted (add_orguser srv oid usernames) s)) = [PATCH]
   \<and> map req_json_body (requests_of (emitted (add_orguser srv oid usernames) s)) =
     [Some [(''subject'', JStr ''add''), (''usernames'', JList usernames)]]
   \<and> map req_json_body (requests_of (emitted (delete_orguser srv oid usernames) s)) =
     [Some [(''subject'', JStr ''delete''), (''usernames'', JList usernames)]]"
  by (simp add: emitted_def add_orguser_def delete_orguser_def patch_def step_simps Let_def)

text \<open>
  C4. For every dict \<open>json_body\<close>, \<open>create_org(json_body)\<close> issues exactly one request:
  a POST to the org collection path \<open>/siteapi/v1/org/\<close> (the relative path is empty)
  whose JSON body is the dict the caller gave, with no key added, removed or changed.
\<close>

theorem create_org_request:
  assumes "OrgClient_init url auth kwargs tr = (Inr (self s), tr')"
  shows "requests_of (emitted (create_org srv json_body) s) =
           [\<lparr>req_verb = POST, req_base_url = url, req_path = ''/siteapi/v1/org/'',
             req_params = None, req_json_body = Some json_body, req_authorizer = auth\<rparr>]"
  using OrgClient_init_accepted [OF assms]
  by (simp add: emitted_def create_org_def post_def step_simps)

theorem create_org_request_witness:
  "OrgClient_init ''https://arkid.example.org'' (Some basic_auth) [] [] = (Inr (self fresh), [])
   \<and> requests_of (emitted (create_org ok_server [(''name'', JStr ''example'')]) fresh) =
       [\<lparr>req_verb = POST, req_base_url = ''https://arkid.example.org'',
         req_path = ''/siteapi/v1/org/'', req_params = None,
         req_json_body = Some [(''name'', JStr ''example'')],
         req_authorizer = Some basic_auth\<rparr>]"
  using fresh_constructed
    create_org_request [OF fresh_constructed, of ok_server "[(''name'', JStr ''example'')]"]
  by simp

section \<open>The log line of a call\<close>

lemma info_msg_inject: "info_msg a = info_msg b \<longleftrightarrow> a = b"
  by (simp add: info_msg_def)

lemma invoke_emits_log_then_request:
  "\<exists>l r. emitted (invoke srv call) s = [LogInfo l, HttpRequest r]"
  by (cases call)
    (simp_all add: emitted_def method_defs verb_defs step_simps Let_def)

lemma invoke_logs_own_name:
  assumes "\<forall>oid. call \<noteq> Refresh_org_invitation_key oid"
  shows "log_lines_of (emitted (invoke srv call) s) = [info_msg (method_name call)]"
  using assms
  by (cases call)
    (simp_all add: emitted_def method_defs verb_defs step_simps Let_def)

text \<open>
  C5. Every method emits exactly one informational log line before dispatching its
  request, and the line names the method invoked. The second half fails for
  \<open>refresh_org_invitation_key\<close>: on the oid \<open>o1\<close> it emits one line and then one PUT,
  but the line is the one of \<open>get_org_invitation_key\<close>, which is not the line naming
  \<open>refresh_org_invitation_key\<close>.
\<close>

theorem refresh_org_invitation_key_logs_other_name:
  "log_lines_of (emitted (invoke ok_server (Refresh_org_invitation_key ''o1'')) fresh) =
     [info_msg ''get_org_invitation_key'']
   \<and> method_name (Refresh_org_invitation_key ''o1'') = ''refresh_org_invitation_key''
   \<and> info_msg ''get_org_invitation_key'' \<noteq> info_msg ''refresh_org_invitation_key''
   \<and> log_lines_of (emitted (invoke ok_server (Get_org_invitation_key ''o1'')) fresh) =
     log_lines_of (emitted (invoke ok_server (Refresh_org_invitation_key ''o1'')) fresh)
   \<and> map req_verb
       (requests_of (emitted (invoke ok_server (Refresh_org_invitation_key ''o1'')) fresh)) =
     [PUT]"
  by (simp add: emitted_def refresh_org_invitation_key_def get_org_invitation_key_def
      put_def get_def step_simps info_msg_inject)

section \<open>Construction\<close>

text \<open>
  C6. For every base URL and every authorizer whose type is not in
  \<open>allowed_authorizer_types\<close>, which holds exactly \<open>BasicAuthorizer\<close>, constructing an
  \<open>OrgClient\<close> with it fails: the constructor returns an error and no client object,
  so no method can run on it, and it sends no request.
\<close>

theorem OrgClient_init_rejects:
  assumes "type_of a \<notin> set allowed_authorizer_types"
  shows "OrgClient_init url (Some a) kwargs tr = (Inl (AuthorizerRejected (type_of a)), tr)
         \<and> requests_of (snd (OrgClient_init url (Some a) kwargs tr)) = requests_of tr
         \<and> set allowed_authorizer_types = {BasicAuthorizer}"
  using assms
  by (simp add: OrgClient_init_def BaseClient_init_def allowed_authorizer_types_def)

theorem OrgClient_init_rejects_witness:
  "type_of (Authorizer (OtherAuthorizer ''NullAuthorizer'') []) \<notin> set allowed_authorizer_types
   \<and> OrgClient_init ''https://arkid.example.org''
       (Some (Authorizer (OtherAuthorizer ''NullAuthorizer'') [])) [] [] =
     (Inl (AuthorizerRejected (OtherAuthorizer ''NullAuthorizer'')), [])"
proof -
  have h: "type_of (Authorizer (OtherAuthorizer ''NullAuthorizer'') [])
             \<notin> set allowed_authorizer_types"
    by (simp add: allowed_authorizer_types_def)
  show ?thesis
    using h OrgClient_init_rejects [OF h, of "''https://arkid.example.org''" "[]" "[]"]
    by simp
qed

section \<open>Server errors\<close>

lemma request_result:
  "fst (request srv v path params json_body s) =
     (case srv (requests_of (trace (snd (request srv v path params json_body s)))) of
        Success r \<Rightarrow> Inr (Response (default_response_class (self s)) r)
      | Failure r \<Rightarrow> Inl (APIError (error_class (self s)) (status r) (message r)))"
  by (simp add: request_def Let_def split: server_reply.split)

lemma invoke_result:
  "fst (invoke srv call s) =
     (case srv (requests_of (trace (snd (invoke srv call s)))) of
        Success r \<Rightarrow> Inr (Response (default_response_class (self s)) r)
      | Failure r \<Rightarrow> Inl (APIError (error_class (self s)) (status r) (message r)))"
  by (cases call)
    (simp_all only: invoke.simps method_defs verb_defs Let_def request_result
      logger_info_self)

lemma invoke_one_request: "length (requests_of (emitted (invoke srv call) s)) = 1"
  by (cases call)
    (simp_all add: emitted_def method_defs verb_defs step_simps Let_def)

text \<open>
  C7. For every operation of a constructed \<open>OrgClient\<close>, if the server answers the
  request of the call with an error response, the call raises an \<open>OrgAPIError\<close>, the
  error class of the client, carrying the status and the message of that response
  unchanged; the call has sent exactly one request, so nothing was retried.
\<close>

theorem server_error_propagates:
  assumes "OrgClient_init url auth kwargs tr = (Inr (self s), tr')"
    and "srv (requests_of (trace (snd (invoke srv call s)))) = Failure r"
  shows "fst (invoke srv call s) = Inl (APIError OrgAPIError (status r) (message r))
         \<and> error_class (self s) = OrgAPIError
         \<and> length (requests_of (emitted (invoke srv call) s)) = 1"
  using OrgClient_init_accepted(4) [OF assms(1)] assms(2)
  by (simp add: invoke_result invoke_one_request)

theorem server_error_propagates_witness:
  "OrgClient_init ''https://arkid.example.org'' (Some basic_auth) [] [] = (Inr (self fresh), [])
   \<and> forbidding_server
       (requests_of (trace (snd (invoke forbidding_server (Delete_org ''o1'') fresh)))) =
     Failure \<lparr>status = 403, message = ''Forbidden'', data = JNull\<rparr>
   \<and> fst (invoke forbidding_server (Delete_org ''o1'') fresh) =
     Inl (APIError OrgAPIError 403 ''Forbidden'')"
proof -
  have h: "forbidding_server
             (requests_of (trace (snd (invoke forbidding_server (Delete_org ''o1'') fresh)))) =
           Failure \<lparr>status = 403, message = ''Forbidden'', data = JNull\<rparr>"
    by (simp add: forbidding_server_def)
  show ?thesis
    using fresh_constructed h
      server_error_propagates [where s = fresh and srv = forbidding_server
        and call = "Delete_org ''o1''", OF fresh_constructed h]
    by simp
qed

section \<open>Calls do not depend on one another\<close>

lemma invoke_self: "self (snd (invoke srv call s)) = self s"
  by (cases call)
    (simp_all add: method_defs verb_defs step_simps Let_def)

lemma run_calls_self: "self (snd (run_calls srv calls s)) = self s"
proof (induction calls arbitrary: s)
  case Nil
  show ?case by simp
next
  case (Cons c cs)
  obtain r s1 where first: "invoke srv c s = (r, s1)"
    by (cases "invoke srv c s")
  obtain rs s2 where rest: "run_calls srv cs s1 = (rs, s2)"
    by (cases "run_calls srv cs s1")
  have "self s1 = self s"
    using invoke_self [of srv c s] first by simp
  moreover have "self s2 = self s1"
    using Cons.IH [of s1] rest by simp
  ultimately show ?case
    using first rest by simp
qed

lemma invoke_requests_cong:
  assumes "self s = self s'"
  shows "requests_of (emitted (invoke srv call) s) = requests_of (emitted (invoke srv' call) s')"
  using assms
  by (cases call)
    (simp_all add: emitted_def method_defs verb_defs step_simps Let_def)

text \<open>
  C8. No method changes the client: after every sequence of calls on one client the
  object, and with it the base URL, the resource prefix, the authorizer, the error
  class and the response class, is what it was before the sequence. The request a call
  issues after the sequence is the request the same call issues on the client with an
  empty history, whatever the servers have answered: it depends on the arguments of
  the call and on the configuration only.
\<close>

theorem calls_keep_client_and_are_independent:
  "self (snd (run_calls srv calls s)) = self s
   \<and> requests_of (emitted (invoke srv call) (snd (run_calls srv calls s))) =
     requests_of (emitted (invoke srv' call) (s\<lparr>trace := []\<rparr>))"
proof -
  have keep: "self (snd (run_calls srv calls s)) = self s"
    by (rule run_calls_self)
  have "self (snd (run_calls srv calls s)) = self (s\<lparr>trace := []\<rparr>)"
    using keep by simp
  then have "requests_of (emitted (invoke srv call) (snd (run_calls srv calls s))) =
             requests_of (emitted (invoke srv' call) (s\<lparr>trace := []\<rparr>))"
    by (rule invoke_requests_cong)
  with keep show ?thesis by simp
qed

section \<open>Paths and bodies across the methods\<close>

text \<open>
  C9. Paths are built by concatenation, with no escaping and no validation of the
  identifiers, so the request path does not determine the call: \<open>query_org\<close> on the
  oid \<open>x/user/y\<close> and \<open>query_orguser\<close> on the oid \<open>x\<close> and the username \<open>y\<close> are two
  different calls that issue the same request, to the same path.
\<close>

theorem request_path_not_injective:
  "Query_org ''x/user/y'' \<noteq> Query_orguser ''x'' ''y''
   \<and> method_name (Query_org ''x/user/y'') \<noteq> method_name (Query_orguser ''x'' ''y'')
   \<and> requests_of (emitted (invoke srv (Query_org ''x/user/y'')) s) =
     requests_of (emitted (invoke srv (Query_orguser ''x'' ''y'')) s)
   \<and> map req_path (requests_of (emitted (invoke srv (Query_org ''x/user/y'')) s)) =
     [base_path (self s) @ ''x/user/y/'']
   \<and> \<not> inj (\<lambda>call. map req_path (requests_of (emitted (invoke srv call) s)))"
proof -
  have same: "requests_of (emitted (invoke srv (Query_org ''x/user/y'')) s) =
              requests_of (emitted (invoke srv (Query_orguser ''x'' ''y'')) s)"
    by (simp add: emitted_def query_org_def query_orguser_def get_def step_simps)
  have path: "map req_path (requests_of (emitted (invoke srv (Query_org ''x/user/y'')) s)) =
              [base_path (self s) @ ''x/user/y/'']"
    by (simp add: emitted_def query_org_def get_def step_simps)
  have "\<not> inj (\<lambda>call. map req_path (requests_of (emitted (invoke srv call) s)))"
  proof
    assume "inj (\<lambda>call. map req_path (requests_of (emitted (invoke srv call) s)))"
    then have "Query_org ''x/user/y'' = Query_orguser ''x'' ''y''"
      by (rule injD) (simp only: same)
    then show False by simp
  qed
  with same path show ?thesis by simp
qed

text \<open>
  C10. For every oid and key, \<open>join_org_by_invitation_key\<close> issues its POST with no
  JSON body, and for every oid, \<open>refresh_org_invitation_key\<close> issues its PUT with no
  JSON body and no query parameters. Every method issues one request, and
  that request carries a JSON body exactly for \<open>create_org\<close>, \<open>update_org\<close>,
  \<open>add_orguser\<close>, \<open>delete_orguser\<close> and \<open>update_orguser\<close>: the dict of the caller
  for the three that take one, the dict built from the usernames for the two others.
  The request of each of the nine remaining methods has no body.
\<close>

theorem json_body_only_for_five_methods:
  "requests_of (emitted (join_org_by_invitation_key srv oid k) s) =
     [\<lparr>req_verb = POST, req_base_url = base_url (self s),
       req_path = base_path (self s) @ oid @ ''/invitation/'' @ k @ ''/'',
       req_params = None, req_json_body = None, req_authorizer = authorizer (self s)\<rparr>]
   \<and> requests_of (emitted (refresh_org_invitation_key srv oid) s) =
     [\<lparr>req_verb = PUT, req_base_url = base_url (self s),
       req_path = base_path (self s) @ oid @ ''/invitation/'',
       req_params = None, req_json_body = None, req_authorizer = authorizer (self s)\<rparr>]
   \<and> map req_json_body (requests_of (emitted (invoke srv call) s)) =
     [case call of
        Create_org json_body \<Rightarrow> Some json_body
      | Update_org oid' json_body \<Rightarrow> Some json_body
      | Add_orguser oid' usernames \<Rightarrow>
          Some [(''subject'', JStr ''add''), (''usernames'', JList usernames)]
      | Delete_orguser oid' usernames \<Rightarrow>
          Some [(''subject'', JStr ''delete''), (''usernames'', JList usernames)]
      | Update_orguser oid' username json_body \<Rightarrow> Some json_body
      | _ \<Rightarrow> None]
   \<and> (\<exists>b. map req_json_body (requests_of (emitted (invoke srv call) s)) = [Some b]) =
     (case call of
        Create_org json_body \<Rightarrow> True
      | Update_org oid' json_body \<Rightarrow> True
      | Add_orguser oid' usernames \<Rightarrow> True
      | Delete_orguser oid' usernames \<Rightarrow> True
      | Update_orguser oid' username json_body \<Rightarrow> True
      | _ \<Rightarrow> False)
   \<and> (map req_json_body (requests_of (emitted (invoke srv call) s)) = [None]) =
     (case call of
        Create_org json_body \<Rightarrow> False
      | Update_org oid' json_body \<Rightarrow> False
      | Add_orguser oid' usernames \<Rightarrow> False
      | Delete_orguser oid' usernames \<Rightarrow> False
      | Update_orguser oid' username json_body \<Rightarrow> False
      | _ \<Rightarrow> True)"
proof -
  have join: "requests_of (emitted (join_org_by_invitation_key srv oid k) s) =
     [\<lparr>req_verb = POST, req_base_url = base_url (self s),
       req_path = base_path (self s) @ oid @ ''/invitation/'' @ k @ ''/'',
       req_params = None, req_json_body = None, req_authorizer = authorizer (self s)\<rparr>]"
    by (simp add: emitted_def join_org_by_invitation_key_def post_def step_simps)
  have refresh: "requests_of (emitted (refresh_org_invitation_key srv oid) s) =
     [\<lparr>req_verb = PUT, req_base_url = base_url (self s),
       req_path = base_path (self s) @ oid @ ''/invitation/'',
       req_params = None, req_json_body = None, req_authorizer = authorizer (self s)\<rparr>]"
    by (simp add: emitted_def refresh_org_invitation_key_def put_def step_simps)
  have bodies: "map req_json_body (requests_of (emitted (invoke srv call) s)) =
     [case call of
        Create_org json_body \<Rightarrow> Some json_body
      | Update_org oid' json_body \<Rightarrow> Some json_body
      | Add_orguser oid' usernames \<Rightarrow>
          Some [(''subject'', JStr ''add''), (''usernames'', JList usernames)]
      | Delete_orguser oid' usernames \<Rightarrow>
          Some [(''subject'', JStr ''delete''), (''usernames'', JList usernames)]
      | Update_orguser oid' username json_body \<Rightarrow> Some json_body
      | _ \<Rightarrow> None]"
    by (cases call)
      (simp_all add: emitted_def method_defs verb_defs step_simps Let_def)
  have five: "(\<exists>b. map req_json_body (requests_of (emitted (invoke srv call) s)) = [Some b]) =
     (case call of
        Create_org json_body \<Rightarrow> True
      | Update_org oid' json_body \<Rightarrow> True
      | Add_orguser oid' usernames \<Rightarrow> True
      | Delete_orguser oid' usernames \<Rightarrow> True
      | Update_orguser oid' username json_body \<Rightarrow> True
      | _ \<Rightarrow> False)"
    unfolding bodies by (cases call) simp_all
  have none: "(map req_json_body (requests_of (emitted (invoke srv call) s)) = [None]) =
     (case call of
        Create_org json_body \<Rightarrow> False
      | Update_org oid' json_body \<Rightarrow> False
      | Add_orguser oid' usernames \<Rightarrow> False
      | Delete_orguser oid' usernames \<Rightarrow> False
      | Update_orguser oid' username json_body \<Rightarrow> False
      | _ \<Rightarrow> True)"
    unfolding bodies by (cases call) simp_all
  from join refresh bodies five none show ?thesis
    by (intro conjI)
qed

end
